theory Spec2Isabelle
  imports Complex_Main
begin

section \<open>Decimal numbers of the arithmetic library\<close>

text \<open>
  The source computes with the values of the \<^verbatim>\<open>bignumber.js\<close> library, configured by
  \<^verbatim>\<open>BigNumber.config({ DECIMAL_PLACES: 18, ROUNDING_MODE: BigNumber.ROUND_DOWN })\<close>.
  Such a value is a finite decimal, one of the two infinities, or NaN. A finite decimal is
  modelled by the rational number it denotes. The library also distinguishes a negative
  zero; the model does not, so a nonzero number divided by zero is given the sign of the
  dividend. The library's exponent range (overflow to infinity beyond \<open>10 ^ 1000000000\<close>)
  is not modelled either.
\<close>

datatype bn = Fin rat | PInf | NInf | NaN

datatype error = InsufficientBalance | ExponentNotInteger | InvalidAmount

text \<open>
  \<open>InsufficientBalance\<close> is \<^verbatim>\<open>throw new Error('Insufficient token balance')\<close>;
  \<open>ExponentNotInteger\<close> is the error the library's \<^verbatim>\<open>pow\<close> throws for an exponent that is
  not an integer. \<open>InvalidAmount\<close> is the error kind of the specification's interface; no
  statement of the source raises it.
\<close>

definition is_neg :: "bn \<Rightarrow> bool" where
  "is_neg a = (case a of Fin x \<Rightarrow> x < 0 | NInf \<Rightarrow> True | _ \<Rightarrow> False)"

definition inf_of_sign :: "bool \<Rightarrow> bn" where
  "inf_of_sign pos = (if pos then PInf else NInf)"

definition bn_negate :: "bn \<Rightarrow> bn" where
  "bn_negate a = (case a of Fin x \<Rightarrow> Fin (- x) | PInf \<Rightarrow> NInf | NInf \<Rightarrow> PInf | NaN \<Rightarrow> NaN)"

definition bn_plus :: "bn \<Rightarrow> bn \<Rightarrow> bn" where
  "bn_plus a b =
     (if a = NaN \<or> b = NaN then NaN
      else case (a, b) of
        (Fin x, Fin y) \<Rightarrow> Fin (x + y)
      | (Fin x, _) \<Rightarrow> b
      | (_, Fin y) \<Rightarrow> a
      | _ \<Rightarrow> if a = b then a else NaN)"

definition bn_minus :: "bn \<Rightarrow> bn \<Rightarrow> bn" where
  "bn_minus a b = bn_plus a (bn_negate b)"

definition bn_times :: "bn \<Rightarrow> bn \<Rightarrow> bn" where
  "bn_times a b =
     (if a = NaN \<or> b = NaN then NaN
      else case (a, b) of
        (Fin x, Fin y) \<Rightarrow> Fin (x * y)
      | _ \<Rightarrow> if a = Fin 0 \<or> b = Fin 0 then NaN else inf_of_sign (is_neg a = is_neg b))"

text \<open>Rounding to 18 decimal places towards zero (\<^verbatim>\<open>ROUND_DOWN\<close>).\<close>

definition round_down :: "rat \<Rightarrow> rat" where
  "round_down x =
     (if 0 \<le> x then of_int \<lfloor>x * 10 ^ 18\<rfloor> / 10 ^ 18
      else - (of_int \<lfloor>- x * 10 ^ 18\<rfloor> / 10 ^ 18))"

definition bn_div :: "bn \<Rightarrow> bn \<Rightarrow> bn" where
  "bn_div a b =
     (if a = NaN \<or> b = NaN then NaN
      else case (a, b) of
        (Fin x, Fin y) \<Rightarrow>
          if y = 0 then (if x = 0 then NaN else inf_of_sign (0 < x))
          else Fin (round_down (x / y))
      | (Fin x, _) \<Rightarrow> Fin 0
      | (_, Fin y) \<Rightarrow> inf_of_sign (is_neg a = (y < 0))
      | _ \<Rightarrow> NaN)"

definition bn_gt :: "bn \<Rightarrow> bn \<Rightarrow> bool" where
  "bn_gt a b =
     (if a = NaN \<or> b = NaN then False
      else case (a, b) of
        (Fin x, Fin y) \<Rightarrow> y < x
      | (PInf, _) \<Rightarrow> b \<noteq> PInf
      | (_, NInf) \<Rightarrow> a \<noteq> NInf
      | _ \<Rightarrow> False)"

definition bn_gte :: "bn \<Rightarrow> bn \<Rightarrow> bool" where
  "bn_gte a b = (if a = NaN \<or> b = NaN then False else a = b \<or> bn_gt a b)"

definition is_integer :: "rat \<Rightarrow> bool" where
  "is_integer n = (of_int \<lfloor>n\<rfloor> = n)"

text \<open>
  The short cut of \<^verbatim>\<open>pow\<close> for an exponent of magnitude \<open>10 ^ 10\<close> or more
  (\<^verbatim>\<open>n.e > 9\<close>): the library does not compute the power when the base is far enough from
  1, as read from its leading digits. \<^verbatim>\<open>nIsBig\<close> is an exponent of magnitude \<open>10 ^ 15\<close> or
  more. The bases 0, 1 and -1 never reach this test.
\<close>

definition pow_short_cut :: "rat \<Rightarrow> rat \<Rightarrow> bool" where
  "pow_short_cut x n =
     (10 ^ 10 \<le> \<bar>n\<bar> \<and> x \<noteq> 0 \<and> \<bar>x\<bar> \<noteq> 1 \<and>
      (if 1 \<le> \<bar>x\<bar>
       then 2 \<le> \<bar>x\<bar> \<or> (10 ^ 15 \<le> \<bar>n\<bar> \<and> 10000024 / 10000000 \<le> \<bar>x\<bar>)
       else \<bar>x\<bar> < 8 / 10 \<or> (10 ^ 15 \<le> \<bar>n\<bar> \<and> \<lfloor>\<bar>x\<bar> * 10 ^ 14\<rfloor> \<le> 99999750000000)))"

text \<open>
  \<^verbatim>\<open>x.pow(n)\<close>. The library first rejects a finite exponent that is not an integer. For a
  NaN or infinite operand, and for a zero exponent, it returns what \<^verbatim>\<open>Math.pow\<close> returns.
  Where the short cut applies it returns an infinity or zero: with a base of magnitude above
  1 an infinity for a positive exponent and zero for a negative one, with a base of
  magnitude below 1 the reverse; the infinity is negative for a negative base and an odd
  exponent. Otherwise the power is computed exactly by repeated multiplication
  (\<^verbatim>\<open>POW_PRECISION\<close> is 0), and for a negative exponent the result is \<^verbatim>\<open>ONE.div\<close> of that
  power, rounded as every division is. For a finite base and an infinite exponent the
  library compares the base's double approximation with 1; the model compares the exact
  value. Since the exponent range is not modelled, a computed power beyond
  \<open>10 ^ 1000000000\<close> is a finite number here where the library returns an infinity.
\<close>

definition bn_pow :: "bn \<Rightarrow> bn \<Rightarrow> error + bn" where
  "bn_pow a e =
     (case e of
        Fin n \<Rightarrow>
          if \<not> is_integer n then Inl ExponentNotInteger
          else if n = 0 then Inr (Fin 1)
          else (case a of
              NaN \<Rightarrow> Inr NaN
            | PInf \<Rightarrow> Inr (if 0 < n then PInf else Fin 0)
            | NInf \<Rightarrow> Inr (if 0 < n then (if even \<lfloor>n\<rfloor> then PInf else NInf) else Fin 0)
            | Fin x \<Rightarrow>
                if pow_short_cut x n
                then Inr (if (1 \<le> \<bar>x\<bar>) = (0 < n)
                          then inf_of_sign (\<not> (x < 0 \<and> odd \<lfloor>n\<rfloor>)) else Fin 0)
                else if 0 < n then Inr (Fin (x ^ nat \<lfloor>n\<rfloor>))
                else Inr (bn_div (Fin 1) (Fin (x ^ nat \<lfloor>- n\<rfloor>))))
      | NaN \<Rightarrow> Inr NaN
      | _ \<Rightarrow>
          (case a of
              NaN \<Rightarrow> Inr NaN
            | Fin x \<Rightarrow>
                if \<bar>x\<bar> = 1 then Inr NaN
                else Inr (if (1 < \<bar>x\<bar>) = (e = PInf) then PInf else Fin 0)
            | _ \<Rightarrow> Inr (if e = PInf then PInf else Fin 0)))"

section \<open>Constructor arguments\<close>

text \<open>
  A constructor option is absent (\<^verbatim>\<open>undefined\<close>), a JavaScript number, a string or a
  \<^verbatim>\<open>BigNumber\<close> object. A number is represented by the decimal the library reads it as.
  \<^verbatim>\<open>a || b\<close> yields \<^verbatim>\<open>a\<close> when \<^verbatim>\<open>a\<close> is truthy: \<^verbatim>\<open>undefined\<close>, the numbers 0 and NaN and
  the empty string are falsy, every other string and every object is truthy.
\<close>

datatype jsval = Undefined | JNumber bn | JString string | JBigNumber bn

definition truthy :: "jsval \<Rightarrow> bool" where
  "truthy v =
     (case v of
        Undefined \<Rightarrow> False
      | JNumber b \<Rightarrow> b \<noteq> Fin 0 \<and> b \<noteq> NaN
      | JString s \<Rightarrow> s \<noteq> []
      | JBigNumber b \<Rightarrow> True)"

definition js_or :: "jsval \<Rightarrow> jsval \<Rightarrow> jsval" where
  "js_or a b = (if truthy a then a else b)"

definition is_digit :: "char \<Rightarrow> bool" where
  "is_digit c = (c \<in> set ''0123456789'')"

fun digits_value :: "nat \<Rightarrow> string \<Rightarrow> nat" where
  "digits_value acc [] = acc"
| "digits_value acc (c # cs) = digits_value (10 * acc + (of_char c - 48)) cs"

text \<open>
  Reading a string in plain decimal notation: an optional minus sign, digits, and an
  optional point with digits on either side, at least one digit in all. Any other string
  reads as NaN here; the library's exponent notation, other bases and the names of the
  infinities are not modelled, and no theorem below is about such a string.
\<close>

definition parse_decimal :: "string \<Rightarrow> bn" where
  "parse_decimal s =
     (let neg = (s \<noteq> [] \<and> hd s = CHR ''-'');
          r = (if neg then tl s else s);
          ip = takeWhile (\<lambda>c. c \<noteq> CHR ''.'') r;
          fp = drop (length ip + 1) r
      in if (ip = [] \<and> fp = []) \<or> \<not> list_all is_digit ip \<or> \<not> list_all is_digit fp then NaN
         else let v = rat_of_nat (digits_value 0 (ip @ fp)) / 10 ^ length fp
              in Fin (if neg then - v else v))"

text \<open>\<^verbatim>\<open>new BigNumber(v)\<close>.\<close>

definition new_BigNumber :: "jsval \<Rightarrow> bn" where
  "new_BigNumber v =
     (case v of
        Undefined \<Rightarrow> NaN
      | JNumber b \<Rightarrow> b
      | JString s \<Rightarrow> parse_decimal s
      | JBigNumber b \<Rightarrow> b)"

record params =
  p_initialSupply :: jsval
  p_reserveRatio :: jsval
  p_initialPrice :: jsval
  p_fee :: jsval
  p_currentSupply :: jsval

definition no_params :: params where
  "no_params = \<lparr>p_initialSupply = Undefined, p_reserveRatio = Undefined,
     p_initialPrice = Undefined, p_fee = Undefined, p_currentSupply = Undefined\<rparr>"

section \<open>The bonding curve model\<close>

text \<open>
  The fields of a \<^verbatim>\<open>BondingCurveModel\<close> object. The two nested objects
  \<^verbatim>\<open>liquidityMilestones\<close> and \<^verbatim>\<open>burnPercentages\<close> are flattened, with the prefixes
  \<open>lm_\<close> and \<open>bp_\<close>.
\<close>

record CurveState =
  initialSupply :: bn
  reserveRatio :: bn
  initialPrice :: bn
  fee :: bn
  currentSupply :: bn
  poolBalance :: bn
  lm_addDexLiquidity :: bn
  lm_firstBurn :: bn
  lm_secondBurn :: bn
  bp_firstBurn :: bn
  bp_secondBurn :: bn

definition calculateInitialPoolBalance :: "bn \<Rightarrow> bn \<Rightarrow> bn \<Rightarrow> bn" where
  "calculateInitialPoolBalance iSupply iPrice rRatio = bn_times (bn_times iSupply iPrice) rRatio"

definition constructor :: "params \<Rightarrow> CurveState" where
  "constructor ps =
     (let iSupply = new_BigNumber (js_or (p_initialSupply ps) (JString ''800000000''));
          rRatio = new_BigNumber (js_or (p_reserveRatio ps) (JString ''0.2''));
          iPrice = new_BigNumber (js_or (p_initialPrice ps) (JString ''0.0000001''));
          feeRate = new_BigNumber (js_or (p_fee ps) (JString ''0.01''));
          cSupply = new_BigNumber (js_or (p_currentSupply ps) (JBigNumber iSupply))
      in \<lparr>initialSupply = iSupply, reserveRatio = rRatio, initialPrice = iPrice,
          fee = feeRate, currentSupply = cSupply,
          poolBalance = calculateInitialPoolBalance iSupply iPrice rRatio,
          lm_addDexLiquidity = parse_decimal ''69000'',
          lm_firstBurn = parse_decimal ''100000'',
          lm_secondBurn = parse_decimal ''1000000'',
          bp_firstBurn = parse_decimal ''0.1'',
          bp_secondBurn = parse_decimal ''0.05''\<rparr>)"

text \<open>The divisor of the price formula, \<^verbatim>\<open>this.currentSupply.times(this.reserveRatio)\<close>.\<close>

definition price_divisor :: "CurveState \<Rightarrow> bn" where
  "price_divisor s = bn_times (currentSupply s) (reserveRatio s)"

definition getCurrentPrice :: "CurveState \<Rightarrow> bn" where
  "getCurrentPrice s = bn_div (poolBalance s) (price_divisor s)"

definition getMarketCap :: "CurveState \<Rightarrow> bn" where
  "getMarketCap s = bn_times (currentSupply s) (getCurrentPrice s)"

definition calculatenewSupply :: "CurveState \<Rightarrow> bn \<Rightarrow> error + bn" where
  "calculatenewSupply s newPoolBalance =
     (case bn_pow (bn_div newPoolBalance (poolBalance s)) (bn_div (Fin 1) (reserveRatio s)) of
        Inl e \<Rightarrow> Inl e
      | Inr p \<Rightarrow> Inr (bn_times (currentSupply s) p))"

definition calculatePoolBalance :: "CurveState \<Rightarrow> bn \<Rightarrow> error + bn" where
  "calculatePoolBalance s supply =
     (case bn_pow (bn_div supply (currentSupply s)) (reserveRatio s) of
        Inl e \<Rightarrow> Inl e
      | Inr p \<Rightarrow> Inr (bn_times (poolBalance s) p))"

record buy_quote =
  tokensReceived :: bn
  buy_fee :: bn
  buy_newPrice :: bn

record sell_quote =
  baseReceived :: bn
  sell_fee :: bn
  sell_newPrice :: bn

text \<open>
  The amount arguments below are the values of \<^verbatim>\<open>new BigNumber(baseAmount)\<close> and
  \<^verbatim>\<open>new BigNumber(tokenAmount)\<close>. Every method that is called on the object takes the
  object's state and returns it with its outcome. The methods of the library return new
  numbers and change none of their operands, and no statement of the two calculations or
  of \<^verbatim>\<open>calculatenewSupply\<close> and \<^verbatim>\<open>calculatePoolBalance\<close> assigns to a field.
\<close>

definition calculateBuyTokens :: "CurveState \<Rightarrow> bn \<Rightarrow> (error + buy_quote) \<times> CurveState" where
  "calculateBuyTokens s baseAmountBN =
     (let feeAmount = bn_times baseAmountBN (fee s);
          baseAmountAfterFee = bn_minus baseAmountBN feeAmount;
          newPoolBalance = bn_plus (poolBalance s) baseAmountAfterFee
      in case calculatenewSupply s newPoolBalance of
           Inl e \<Rightarrow> (Inl e, s)
         | Inr newSupply \<Rightarrow>
             (Inr \<lparr>tokensReceived = bn_minus newSupply (currentSupply s),
                   buy_fee = feeAmount,
                   buy_newPrice = bn_div (poolBalance s) (bn_times (currentSupply s) (reserveRatio s))\<rparr>,
              s))"

definition calculateSellTokens :: "CurveState \<Rightarrow> bn \<Rightarrow> (error + sell_quote) \<times> CurveState" where
  "calculateSellTokens s tokenAmountBN =
     (if bn_gt tokenAmountBN (currentSupply s) then (Inl InsufficientBalance, s)
      else
        let newSupply = bn_minus (currentSupply s) tokenAmountBN
        in case calculatePoolBalance s newSupply of
             Inl e \<Rightarrow> (Inl e, s)
           | Inr newPoolBalance \<Rightarrow>
               let baseAmountBeforeFee = bn_minus (poolBalance s) newPoolBalance;
                   feeAmount = bn_times baseAmountBeforeFee (fee s);
                   baseAmountAfterFee = bn_minus baseAmountBeforeFee feeAmount
               in (Inr \<lparr>baseReceived = baseAmountAfterFee,
                        sell_fee = feeAmount,
                        sell_newPrice = bn_div newPoolBalance (bn_times newSupply (reserveRatio s))\<rparr>,
                   s))"

definition burnLiquidity :: "CurveState \<Rightarrow> bn \<Rightarrow> CurveState" where
  "burnLiquidity s percentage =
     (let burnAmount = bn_times (poolBalance s) percentage
      in s\<lparr>poolBalance := bn_minus (poolBalance s) burnAmount\<rparr>)"

text \<open>
  \<^verbatim>\<open>checkMilestones\<close> computes the market capitalisation once, on entry. The branch of the
  listing threshold is empty in the source.
\<close>

definition checkMilestones :: "CurveState \<Rightarrow> CurveState" where
  "checkMilestones s =
     (let marketCap = bn_times (currentSupply s) (getCurrentPrice s);
          s1 = (if bn_gte marketCap (lm_addDexLiquidity s) then s else s);
          s2 = (if bn_gte marketCap (lm_firstBurn s1) then burnLiquidity s1 (bp_firstBurn s1) else s1);
          s3 = (if bn_gte marketCap (lm_secondBurn s2) then burnLiquidity s2 (bp_secondBurn s2) else s2)
      in s3)"

record buy_result =
  xb_tokensReceived :: bn
  xb_fee :: bn
  xb_newPrice :: bn
  xb_currentSupply :: bn
  xb_poolBalance :: bn

record sell_result =
  xs_baseReceived :: bn
  xs_fee :: bn
  xs_newPrice :: bn
  xs_currentSupply :: bn
  xs_poolBalance :: bn

text \<open>
  The assignments of \<^verbatim>\<open>executeBuy\<close> and of \<^verbatim>\<open>executeSell\<close> are \<open>buy_update\<close> and
  \<open>sell_update\<close>. An exception of the calculation leaves the call before them.
\<close>

definition buy_update :: "CurveState \<Rightarrow> bn \<Rightarrow> buy_quote \<Rightarrow> CurveState" where
  "buy_update s baseAmountBN result =
     (let s1 = s\<lparr>poolBalance := bn_plus (poolBalance s) (bn_minus baseAmountBN (buy_fee result))\<rparr>
      in s1\<lparr>currentSupply := bn_plus (currentSupply s1) (tokensReceived result)\<rparr>)"

definition executeBuy :: "CurveState \<Rightarrow> bn \<Rightarrow> (error + buy_result) \<times> CurveState" where
  "executeBuy s baseAmountBN =
     (case calculateBuyTokens s baseAmountBN of
        (Inl e, s0) \<Rightarrow> (Inl e, s0)
      | (Inr result, s0) \<Rightarrow>
          let s' = checkMilestones (buy_update s0 baseAmountBN result)
          in (Inr \<lparr>xb_tokensReceived = tokensReceived result,
                   xb_fee = buy_fee result,
                   xb_newPrice = getCurrentPrice s',
                   xb_currentSupply = currentSupply s',
                   xb_poolBalance = poolBalance s'\<rparr>, s'))"

definition sell_update :: "CurveState \<Rightarrow> bn \<Rightarrow> sell_quote \<Rightarrow> CurveState" where
  "sell_update s tokenAmountBN result =
     (let s1 = s\<lparr>currentSupply := bn_minus (currentSupply s) tokenAmountBN\<rparr>
      in s1\<lparr>poolBalance := bn_minus (poolBalance s1) (bn_plus (baseReceived result) (sell_fee result))\<rparr>)"

definition executeSell :: "CurveState \<Rightarrow> bn \<Rightarrow> (error + sell_result) \<times> CurveState" where
  "executeSell s tokenAmountBN =
     (case calculateSellTokens s tokenAmountBN of
        (Inl e, s0) \<Rightarrow> (Inl e, s0)
      | (Inr result, s0) \<Rightarrow>
          let s' = sell_update s0 tokenAmountBN result
          in (Inr \<lparr>xs_baseReceived = baseReceived result,
                   xs_fee = sell_fee result,
                   xs_newPrice = getCurrentPrice s',
                   xs_currentSupply = currentSupply s',
                   xs_poolBalance = poolBalance s'\<rparr>, s'))"


section \<open>Example objects\<close>

text \<open>The object made by \<^verbatim>\<open>new BondingCurveModel({reserveRatio: 1})\<close>.\<close>

definition ratio_one_state :: CurveState where
  "ratio_one_state = constructor (no_params\<lparr>p_reserveRatio := JNumber (Fin 1)\<rparr>)"

text \<open>The object made by \<^verbatim>\<open>new BondingCurveModel({reserveRatio: 1, initialPrice: 1})\<close>.\<close>

definition large_cap_state :: CurveState where
  "large_cap_state =
     constructor (no_params\<lparr>p_reserveRatio := JNumber (Fin 1), p_initialPrice := JNumber (Fin 1)\<rparr>)"

text \<open>The object made by \<^verbatim>\<open>new BondingCurveModel({initialPrice: 1})\<close>.\<close>

definition milestone_state :: CurveState where
  "milestone_state = constructor (no_params\<lparr>p_initialPrice := JNumber (Fin 1)\<rparr>)"

text \<open>The object made by \<^verbatim>\<open>new BondingCurveModel({reserveRatio: '0.3'})\<close>.\<close>

definition ratio_03_state :: CurveState where
  "ratio_03_state = constructor (no_params\<lparr>p_reserveRatio := JString ''0.3''\<rparr>)"

text \<open>
  The object made by
  \<^verbatim>\<open>new BondingCurveModel({initialSupply: 1, reserveRatio: 1, initialPrice: 1, fee: '0'})\<close>.
\<close>

definition zero_fee_state :: CurveState where
  "zero_fee_state =
     constructor (no_params\<lparr>p_initialSupply := JNumber (Fin 1), p_reserveRatio := JNumber (Fin 1),
       p_initialPrice := JNumber (Fin 1), p_fee := JString ''0''\<rparr>)"

text \<open>
  The object made by \<^verbatim>\<open>new BondingCurveModel({reserveRatio: -1, initialPrice: -1})\<close>.
\<close>

definition neg_ratio_state :: CurveState where
  "neg_ratio_state =
     constructor (no_params\<lparr>p_reserveRatio := JNumber (Fin (- 1)),
       p_initialPrice := JNumber (Fin (- 1))\<rparr>)"

text \<open>The object made by \<^verbatim>\<open>new BondingCurveModel({reserveRatio: '0.0000000001'})\<close>.\<close>

definition tiny_ratio_state :: CurveState where
  "tiny_ratio_state = constructor (no_params\<lparr>p_reserveRatio := JString ''0.0000000001''\<rparr>)"

section \<open>Evaluation\<close>

lemma round_down_numeral [simp]:
  "round_down (numeral a / numeral b) = rat_of_int (numeral a * 10 ^ 18 div numeral b) / 10 ^ 18"
proof -
  have "(numeral a / numeral b :: rat) * 10 ^ 18 = rat_of_int (numeral a * 10 ^ 18) / rat_of_int (numeral b)"
    by simp
  then have "\<lfloor>(numeral a / numeral b :: rat) * 10 ^ 18\<rfloor> = numeral a * 10 ^ 18 div numeral b"
    by (simp only: floor_divide_of_int_eq)
  then show ?thesis
    by (simp add: round_down_def)
qed

lemma round_down_of_int [simp]: "round_down (rat_of_int k) = rat_of_int k"
proof -
  have *: "\<lfloor>rat_of_int m * 10 ^ 18\<rfloor> = m * 10 ^ 18" for m
    using floor_of_int [of "m * 10 ^ 18", where ?'a = rat] by simp
  show ?thesis
    using * [of k] * [of "- k"] by (simp add: round_down_def)
qed

lemma round_down_numeral_int [simp]: "round_down (numeral a) = numeral a"
  using round_down_of_int [of "numeral a"] by simp

lemma round_down_minus [simp]: "round_down (- x) = - round_down x"
  by (simp add: round_down_def)

lemma round_down_one_div_numeral [simp]:
  "round_down (1 / numeral b) = rat_of_int (10 ^ 18 div numeral b) / 10 ^ 18"
proof -
  have "(1 / numeral b :: rat) * 10 ^ 18 = rat_of_int (10 ^ 18) / rat_of_int (numeral b)"
    by simp
  then have "\<lfloor>(1 / numeral b :: rat) * 10 ^ 18\<rfloor> = 10 ^ 18 div numeral b"
    by (simp only: floor_divide_of_int_eq)
  then show ?thesis
    by (simp add: round_down_def)
qed

lemma round_down_0 [simp]: "round_down 0 = 0"
  using round_down_of_int [of 0] by simp

lemma round_down_1 [simp]: "round_down 1 = 1"
  using round_down_of_int [of 1] by simp

lemma bn_plus_Fin [simp]: "bn_plus (Fin x) (Fin y) = Fin (x + y)"
  by (simp add: bn_plus_def)

lemma bn_minus_Fin [simp]: "bn_minus (Fin x) (Fin y) = Fin (x - y)"
  by (simp add: bn_minus_def bn_negate_def bn_plus_def)

lemma bn_times_Fin [simp]: "bn_times (Fin x) (Fin y) = Fin (x * y)"
  by (simp add: bn_times_def)

lemma bn_div_Fin [simp]:
  "bn_div (Fin x) (Fin y) =
     (if y = 0 then (if x = 0 then NaN else if 0 < x then PInf else NInf)
      else Fin (round_down (x / y)))"
  by (simp add: bn_div_def inf_of_sign_def)

lemma bn_gt_Fin [simp]: "bn_gt (Fin x) (Fin y) = (y < x)"
  by (simp add: bn_gt_def)

lemma bn_gte_Fin [simp]: "bn_gte (Fin x) (Fin y) = (y \<le> x)"
  by (auto simp: bn_gte_def bn_gt_def)

lemma is_integer_of_int [simp]: "is_integer (rat_of_int k)"
  by (simp add: is_integer_def)

lemma is_integer_numeral [simp]: "is_integer (numeral a)"
  using is_integer_of_int [of "numeral a"] by simp

lemma is_integer_1 [simp]: "is_integer 1"
  using is_integer_of_int [of 1] by simp

lemma is_integer_numeral_div [simp]:
  "is_integer (numeral a / numeral b) = ((numeral b :: int) dvd numeral a)"
proof -
  have "is_integer (rat_of_int m / rat_of_int n) = (n dvd m)" if "n \<noteq> 0" for m n :: int
  proof
    assume "is_integer (rat_of_int m / rat_of_int n)"
    then have e: "rat_of_int \<lfloor>rat_of_int m / rat_of_int n\<rfloor> = rat_of_int m / rat_of_int n"
      unfolding is_integer_def .
    have "rat_of_int m / rat_of_int n * rat_of_int n = rat_of_int m"
      using that by simp
    then have "rat_of_int \<lfloor>rat_of_int m / rat_of_int n\<rfloor> * rat_of_int n = rat_of_int m"
      by (simp only: e)
    then have "\<lfloor>rat_of_int m / rat_of_int n\<rfloor> * n = m"
      by (metis of_int_eq_iff of_int_mult)
    then show "n dvd m"
      by (metis dvd_triv_right)
  next
    assume "n dvd m"
    then obtain k where "m = n * k" ..
    then show "is_integer (rat_of_int m / rat_of_int n)"
      using that by (simp add: is_integer_def)
  qed
  from this [of "numeral b" "numeral a"] show ?thesis by simp
qed

lemma bn_pow_Fin_pos:
  "is_integer n \<Longrightarrow> 0 < n \<Longrightarrow> n < 10 ^ 10 \<Longrightarrow>
     bn_pow (Fin x) (Fin n) = Inr (Fin (x ^ nat \<lfloor>n\<rfloor>))"
  by (simp add: bn_pow_def pow_short_cut_def)

lemma bn_pow_Fin_not_integer: "\<not> is_integer n \<Longrightarrow> bn_pow a (Fin n) = Inl ExponentNotInteger"
  by (simp add: bn_pow_def)

lemma is_integer_one_div_numeral [simp]:
  "is_integer (1 / numeral b) = ((numeral b :: int) dvd 1)"
  using is_integer_numeral_div [of Num.One b] by simp

lemma bn_pow_Fin_1 [simp]: "bn_pow (Fin x) (Fin 1) = Inr (Fin x)"
  by (simp add: bn_pow_Fin_pos)

lemma bn_pow_Fin_numeral [simp]:
  "(numeral k :: rat) < 10 ^ 10 \<Longrightarrow> bn_pow (Fin x) (Fin (numeral k)) = Inr (Fin (x ^ numeral k))"
  by (simp add: bn_pow_Fin_pos)

lemmas js_defs = truthy_def js_or_def is_digit_def parse_decimal_def new_BigNumber_def
  no_params_def calculateInitialPoolBalance_def constructor_def

lemma constructor_default:
  "constructor no_params =
     \<lparr>initialSupply = Fin 800000000, reserveRatio = Fin (1 / 5),
      initialPrice = Fin (1 / 10000000), fee = Fin (1 / 100),
      currentSupply = Fin 800000000, poolBalance = Fin 16,
      lm_addDexLiquidity = Fin 69000, lm_firstBurn = Fin 100000, lm_secondBurn = Fin 1000000,
      bp_firstBurn = Fin (1 / 10), bp_secondBurn = Fin (1 / 20)\<rparr>"
  by (simp add: js_defs Let_def)


section \<open>Bounds of the rounding\<close>

lemma round_down_le: "0 \<le> x \<Longrightarrow> round_down x \<le> x"
proof -
  assume h: "0 \<le> x"
  have "rat_of_int \<lfloor>x * 10 ^ 18\<rfloor> \<le> x * 10 ^ 18"
    by (rule of_int_floor_le)
  then have "rat_of_int \<lfloor>x * 10 ^ 18\<rfloor> / 10 ^ 18 \<le> x"
    by (simp add: pos_divide_le_eq)
  with h show ?thesis
    by (simp add: round_down_def)
qed

lemma round_down_gt: "0 \<le> x \<Longrightarrow> x - 1 / 10 ^ 18 < round_down x"
proof -
  assume h: "0 \<le> x"
  have "x * 10 ^ 18 < rat_of_int \<lfloor>x * 10 ^ 18\<rfloor> + 1"
    by linarith
  then have "x * 10 ^ 18 - 1 < rat_of_int \<lfloor>x * 10 ^ 18\<rfloor>"
    by simp
  then have "(x * 10 ^ 18 - 1) / 10 ^ 18 < rat_of_int \<lfloor>x * 10 ^ 18\<rfloor> / 10 ^ 18"
    by (simp add: divide_strict_right_mono)
  moreover have "(x * 10 ^ 18 - 1) / 10 ^ 18 = x - 1 / 10 ^ 18"
    by (simp add: diff_divide_distrib)
  ultimately show ?thesis
    using h by (simp add: round_down_def)
qed

lemma round_down_nonneg: "0 \<le> x \<Longrightarrow> 0 \<le> round_down x"
proof -
  assume h: "0 \<le> x"
  then have "0 \<le> x * 10 ^ 18"
    by simp
  then have "0 \<le> \<lfloor>x * 10 ^ 18\<rfloor>"
    by simp
  then have "0 \<le> rat_of_int \<lfloor>x * 10 ^ 18\<rfloor> / 10 ^ 18"
    by simp
  with h show ?thesis
    by (simp add: round_down_def)
qed

lemma round_down_ge_one: "1 \<le> x \<Longrightarrow> 1 \<le> round_down x"
proof -
  assume h: "1 \<le> x"
  then have "rat_of_int (10 ^ 18) \<le> x * 10 ^ 18"
    by simp
  then have "10 ^ 18 \<le> \<lfloor>x * 10 ^ 18\<rfloor>"
    by (simp only: le_floor_iff)
  then have "rat_of_int (10 ^ 18) \<le> rat_of_int \<lfloor>x * 10 ^ 18\<rfloor>"
    by (simp only: of_int_le_iff)
  then have "1 \<le> rat_of_int \<lfloor>x * 10 ^ 18\<rfloor> / 10 ^ 18"
    by (simp add: pos_le_divide_eq)
  with h show ?thesis
    by (simp add: round_down_def)
qed

lemma is_integer_0: "is_integer 0"
  using is_integer_of_int [of 0] by simp

lemma is_integer_minus [simp]: "is_integer (- x) = is_integer x"
proof -
  have "is_integer (- y)" if "is_integer y" for y
  proof -
    from that have "rat_of_int \<lfloor>y\<rfloor> = y"
      unfolding is_integer_def .
    then have a: "rat_of_int (- \<lfloor>y\<rfloor>) = - y"
      by (simp only: of_int_minus)
    have "is_integer (rat_of_int (- \<lfloor>y\<rfloor>))"
      by (rule is_integer_of_int)
    then show ?thesis
      by (simp only: a)
  qed
  from this [of x] this [of "- x"] show ?thesis
    by auto
qed

text \<open>
  The rounded quotient of a division is a multiple of \<open>10\<^sup>-\<^sup>1\<^sup>8\<close>, and so is 2 minus
  it; hence the rounded reciprocal of a rounded quotient \<open>q \<ge> 1\<close> is at least \<open>2 - q\<close>.
\<close>

lemma round_down_reciprocal:
  assumes "1 \<le> x"
  shows "2 - round_down x \<le> round_down (1 / round_down x)"
proof -
  define m where "m = \<lfloor>x * 10 ^ 18\<rfloor>"
  define M where "M = rat_of_int m"
  have q: "round_down x = M / 10 ^ 18"
    using assms by (simp add: round_down_def m_def M_def)
  have "rat_of_int (10 ^ 18) \<le> x * 10 ^ 18"
    using assms by simp
  then have "10 ^ 18 \<le> m"
    unfolding m_def by (simp only: le_floor_iff)
  then have "rat_of_int (10 ^ 18) \<le> M"
    unfolding M_def by (simp only: of_int_le_iff)
  then have M: "10 ^ 18 \<le> M"
    by simp
  then have Mpos: "0 < M"
    by simp
  have inv: "1 / round_down x = 10 ^ 18 / M"
    by (simp add: q)
  have inv_nonneg: "0 \<le> 1 / round_down x"
    unfolding inv using Mpos by simp
  have "0 \<le> (10 ^ 18 - M) * (10 ^ 18 - M)"
    by simp
  then have "(2 * 10 ^ 18 - M) * M \<le> 10 ^ 18 * 10 ^ 18"
    by (simp add: algebra_simps)
  then have "2 * 10 ^ 18 - M \<le> 10 ^ 18 * 10 ^ 18 / M"
    using Mpos by (simp add: pos_le_divide_eq)
  then have "rat_of_int (2 * 10 ^ 18 - m) \<le> (10 ^ 18 / M) * 10 ^ 18"
    by (simp add: M_def)
  then have "2 * 10 ^ 18 - m \<le> \<lfloor>(10 ^ 18 / M) * 10 ^ 18\<rfloor>"
    by (simp only: le_floor_iff)
  then have "rat_of_int (2 * 10 ^ 18 - m) \<le> rat_of_int \<lfloor>(10 ^ 18 / M) * 10 ^ 18\<rfloor>"
    by (simp only: of_int_le_iff)
  then have "rat_of_int (2 * 10 ^ 18 - m) / 10 ^ 18
      \<le> rat_of_int \<lfloor>(10 ^ 18 / M) * 10 ^ 18\<rfloor> / 10 ^ 18"
    by (intro divide_right_mono) simp_all
  moreover have "rat_of_int (2 * 10 ^ 18 - m) / 10 ^ 18 = 2 - round_down x"
    by (simp add: q M_def diff_divide_distrib)
  moreover have "rat_of_int \<lfloor>(10 ^ 18 / M) * 10 ^ 18\<rfloor> / 10 ^ 18 = round_down (1 / round_down x)"
  proof -
    have "0 \<le> 10 ^ 18 / M"
      using Mpos by simp
    then have "round_down (10 ^ 18 / M) = rat_of_int \<lfloor>(10 ^ 18 / M) * 10 ^ 18\<rfloor> / 10 ^ 18"
      by (simp only: round_down_def if_True)
    then show ?thesis
      by (simp only: inv)
  qed
  ultimately show ?thesis
    by simp
qed

section \<open>Facts about the operations\<close>

lemma quotes_pure_buy: "snd (calculateBuyTokens s amount) = s"
  by (simp add: calculateBuyTokens_def Let_def split: sum.splits)

lemma quotes_pure_sell: "snd (calculateSellTokens s amount) = s"
  by (simp add: calculateSellTokens_def Let_def split: sum.splits)

lemma executeSell_state:
  "calculateSellTokens s amount = (Inr q, s') \<Longrightarrow> snd (executeSell s amount) = sell_update s' amount q"
  by (simp add: executeSell_def Let_def)

lemma executeBuy_state:
  "calculateBuyTokens s amount = (Inr q, s') \<Longrightarrow>
     snd (executeBuy s amount) = checkMilestones (buy_update s' amount q)"
  by (simp add: executeBuy_def Let_def)

lemma bn_pow_error: "bn_pow a e = Inl err \<Longrightarrow> err = ExponentNotInteger"
  by (auto simp: bn_pow_def split: bn.splits if_splits)

lemma bn_gt_irrefl: "\<not> bn_gt a a"
  by (cases a) (simp_all add: bn_gt_def)

lemma div_by_zero_not_finite: "bn_div a (Fin 0) \<in> {NaN, PInf, NInf}"
  by (cases a) (simp_all add: bn_div_def inf_of_sign_def)

lemma zero_times_not_finite: "b \<in> {NaN, PInf, NInf} \<Longrightarrow> bn_times (Fin 0) b = NaN"
  by (auto simp: bn_times_def)

lemma times_not_finite_right: "b \<in> {NaN, PInf, NInf} \<Longrightarrow> bn_times a b \<in> {NaN, PInf, NInf}"
  by (cases a; cases b) (simp_all add: bn_times_def inf_of_sign_def is_neg_def)

lemma times_not_finite_left: "a \<in> {NaN, PInf, NInf} \<Longrightarrow> bn_times a b \<in> {NaN, PInf, NInf}"
  by (cases a; cases b) (simp_all add: bn_times_def inf_of_sign_def is_neg_def)

lemma minus_not_finite_right: "b \<in> {NaN, PInf, NInf} \<Longrightarrow> bn_minus a b \<in> {NaN, PInf, NInf}"
  by (cases a) (auto simp: bn_minus_def bn_plus_def bn_negate_def)

lemma pow_not_finite:
  "a \<in> {NaN, PInf, NInf} \<Longrightarrow> 0 < n \<Longrightarrow> bn_pow a (Fin n) = Inr p \<Longrightarrow> p \<in> {NaN, PInf, NInf}"
  by (auto simp: bn_pow_def split: if_splits)

lemma sell_fails_fractional_ratio:
  assumes "reserveRatio s = Fin r" "0 < r" "r < 1" "\<not> bn_gt amount (currentSupply s)"
  shows "executeSell s amount = (Inl ExponentNotInteger, s)"
proof -
  have "\<lfloor>r\<rfloor> = 0"
    using assms(2,3) by (simp add: floor_eq_iff)
  then have "\<not> is_integer r"
    using assms(2) by (simp add: is_integer_def)
  then have "bn_pow b (Fin r) = Inl ExponentNotInteger" for b
    by (rule bn_pow_Fin_not_integer)
  then show ?thesis
    using assms(1,4)
    by (simp add: executeSell_def calculateSellTokens_def calculatePoolBalance_def Let_def)
qed

lemma checkMilestones_pool:
  assumes "poolBalance s = Fin P"
    and "bp_firstBurn s = Fin b1" "0 \<le> b1" "b1 \<le> 1"
    and "bp_secondBurn s = Fin b2" "0 \<le> b2" "b2 \<le> 1"
  shows "\<exists>c. 0 \<le> c \<and> c \<le> 1 \<and> checkMilestones s = s\<lparr>poolBalance := Fin (P * c)\<rparr>"
proof -
  define m where "m = bn_times (currentSupply s) (getCurrentPrice s)"
  have c12: "0 \<le> (1 - b1) * (1 - b2) \<and> (1 - b1) * (1 - b2) \<le> 1"
    using assms by (simp add: mult_le_one)
  have e12: "P - P * b1 - (P - P * b1) * b2 = P * ((1 - b1) * (1 - b2))"
    by (simp add: algebra_simps)
  have e1: "P - P * b1 = P * (1 - b1)" and e2: "P - P * b2 = P * (1 - b2)"
    by (simp_all add: algebra_simps)
  have s: "s = s\<lparr>poolBalance := Fin (P * 1)\<rparr>"
    using assms(1) by simp
  consider (none) "\<not> bn_gte m (lm_firstBurn s)" "\<not> bn_gte m (lm_secondBurn s)"
    | (first) "bn_gte m (lm_firstBurn s)" "\<not> bn_gte m (lm_secondBurn s)"
    | (second) "\<not> bn_gte m (lm_firstBurn s)" "bn_gte m (lm_secondBurn s)"
    | (both) "bn_gte m (lm_firstBurn s)" "bn_gte m (lm_secondBurn s)"
    by blast
  then show ?thesis
  proof cases
    case none
    then have "checkMilestones s = s\<lparr>poolBalance := Fin (P * 1)\<rparr>"
      using s by (simp add: checkMilestones_def Let_def m_def [symmetric])
    then show ?thesis
      by (intro exI [of _ 1]) simp
  next
    case first
    then have "checkMilestones s = s\<lparr>poolBalance := Fin (P * (1 - b1))\<rparr>"
      using assms by (simp add: checkMilestones_def burnLiquidity_def Let_def m_def [symmetric] e1)
    then show ?thesis
      using assms by (intro exI [of _ "1 - b1"]) simp
  next
    case second
    then have "checkMilestones s = s\<lparr>poolBalance := Fin (P * (1 - b2))\<rparr>"
      using assms by (simp add: checkMilestones_def burnLiquidity_def Let_def m_def [symmetric] e2)
    then show ?thesis
      using assms by (intro exI [of _ "1 - b2"]) simp
  next
    case both
    then have "checkMilestones s = s\<lparr>poolBalance := Fin (P * ((1 - b1) * (1 - b2)))\<rparr>"
      using assms by (simp add: checkMilestones_def burnLiquidity_def Let_def m_def [symmetric] e12)
    then show ?thesis
      using c12 by (intro exI [of _ "(1 - b1) * (1 - b2)"]) simp
  qed
qed

section \<open>Evaluation of the example objects\<close>

lemma ratio_one_state_eq:
  "ratio_one_state =
     \<lparr>initialSupply = Fin 800000000, reserveRatio = Fin 1,
      initialPrice = Fin (1 / 10000000), fee = Fin (1 / 100),
      currentSupply = Fin 800000000, poolBalance = Fin 80,
      lm_addDexLiquidity = Fin 69000, lm_firstBurn = Fin 100000, lm_secondBurn = Fin 1000000,
      bp_firstBurn = Fin (1 / 10), bp_secondBurn = Fin (1 / 20)\<rparr>"
  by (simp add: ratio_one_state_def js_defs Let_def)

lemma ratio_one_buy_quote:
  "calculateBuyTokens ratio_one_state (Fin 100) =
     (Inr \<lparr>tokensReceived = Fin 990000000, buy_fee = Fin 1, buy_newPrice = Fin (1 / 10000000)\<rparr>,
      ratio_one_state)"
  by (simp add: ratio_one_state_eq calculateBuyTokens_def calculatenewSupply_def Let_def)

lemma ratio_one_sell_quote:
  "calculateSellTokens ratio_one_state (Fin 100) =
     (Inr \<lparr>baseReceived = Fin (99 / 10000000), sell_fee = Fin (1 / 10000000),
           sell_newPrice = Fin (1 / 10000000)\<rparr>,
      ratio_one_state)"
  by (simp add: ratio_one_state_eq calculateSellTokens_def calculatePoolBalance_def Let_def)

lemma ratio_one_sell_all:
  "executeSell ratio_one_state (Fin 800000000) =
     (Inr \<lparr>xs_baseReceived = Fin (396 / 5), xs_fee = Fin (4 / 5), xs_newPrice = NaN,
           xs_currentSupply = Fin 0, xs_poolBalance = Fin 0\<rparr>,
      ratio_one_state\<lparr>currentSupply := Fin 0, poolBalance := Fin 0\<rparr>)"
  by (simp add: ratio_one_state_eq executeSell_def calculateSellTokens_def
      calculatePoolBalance_def sell_update_def getCurrentPrice_def price_divisor_def Let_def)

lemma ratio_one_market_cap:
  "getCurrentPrice ratio_one_state = Fin (1 / 10000000) \<and> getMarketCap ratio_one_state = Fin 80"
  by (simp add: ratio_one_state_eq getMarketCap_def getCurrentPrice_def price_divisor_def)

lemma zero_supply_buy_quote:
  "calculateBuyTokens (ratio_one_state\<lparr>currentSupply := Fin 0, poolBalance := Fin 0\<rparr>) (Fin 100) =
     (Inr \<lparr>tokensReceived = NaN, buy_fee = Fin 1, buy_newPrice = NaN\<rparr>,
      ratio_one_state\<lparr>currentSupply := Fin 0, poolBalance := Fin 0\<rparr>)"
  by (simp add: ratio_one_state_eq calculateBuyTokens_def calculatenewSupply_def Let_def
      bn_pow_def bn_times_def bn_minus_def bn_plus_def bn_negate_def)

lemma zero_supply_sell_quote:
  "calculateSellTokens (ratio_one_state\<lparr>currentSupply := Fin 0, poolBalance := Fin 0\<rparr>) (Fin 0) =
     (Inr \<lparr>baseReceived = NaN, sell_fee = NaN, sell_newPrice = NaN\<rparr>,
      ratio_one_state\<lparr>currentSupply := Fin 0, poolBalance := Fin 0\<rparr>)"
  by (simp add: ratio_one_state_eq calculateSellTokens_def calculatePoolBalance_def Let_def
      bn_pow_def bn_times_def bn_minus_def bn_plus_def bn_negate_def bn_div_def)

lemma ratio_one_buy_milestones:
  "checkMilestones (ratio_one_state\<lparr>currentSupply := Fin 1790000000, poolBalance := Fin 179\<rparr>)
     = ratio_one_state\<lparr>currentSupply := Fin 1790000000, poolBalance := Fin 179\<rparr>"
  by (simp add: ratio_one_state_eq checkMilestones_def getCurrentPrice_def price_divisor_def
      burnLiquidity_def Let_def)

lemma ratio_one_buy:
  "executeBuy ratio_one_state (Fin 100) =
     (Inr \<lparr>xb_tokensReceived = Fin 990000000, xb_fee = Fin 1, xb_newPrice = Fin (1 / 10000000),
           xb_currentSupply = Fin 1790000000, xb_poolBalance = Fin 179\<rparr>,
      ratio_one_state\<lparr>currentSupply := Fin 1790000000, poolBalance := Fin 179\<rparr>)"
proof -
  have u: "buy_update ratio_one_state (Fin 100)
      \<lparr>tokensReceived = Fin 990000000, buy_fee = Fin 1, buy_newPrice = Fin (1 / 10000000)\<rparr>
      = ratio_one_state\<lparr>currentSupply := Fin 1790000000, poolBalance := Fin 179\<rparr>"
    by (simp add: ratio_one_state_eq buy_update_def Let_def)
  have p: "getCurrentPrice (ratio_one_state\<lparr>currentSupply := Fin 1790000000, poolBalance := Fin 179\<rparr>)
      = Fin (1 / 10000000)"
    by (simp add: ratio_one_state_eq getCurrentPrice_def price_divisor_def)
  show ?thesis
    by (simp add: executeBuy_def ratio_one_buy_quote u ratio_one_buy_milestones p Let_def)
qed

lemma ratio_one_sell_back:
  "fst (executeSell (ratio_one_state\<lparr>currentSupply := Fin 1790000000, poolBalance := Fin 179\<rparr>)
       (Fin 990000000)) =
     Inr \<lparr>xs_baseReceived = Fin (9801000000000000011583 / 100000000000000000000),
          xs_fee = Fin (99000000000000000117 / 100000000000000000000),
          xs_newPrice = Fin (99999999999 / 1000000000000000000),
          xs_currentSupply = Fin 800000000,
          xs_poolBalance = Fin (79999999999999999883 / 1000000000000000000)\<rparr>"
  by (simp add: ratio_one_state_eq executeSell_def calculateSellTokens_def
      calculatePoolBalance_def sell_update_def getCurrentPrice_def price_divisor_def Let_def)

lemma large_cap_state_eq:
  "large_cap_state =
     \<lparr>initialSupply = Fin 800000000, reserveRatio = Fin 1,
      initialPrice = Fin 1, fee = Fin (1 / 100),
      currentSupply = Fin 800000000, poolBalance = Fin 800000000,
      lm_addDexLiquidity = Fin 69000, lm_firstBurn = Fin 100000, lm_secondBurn = Fin 1000000,
      bp_firstBurn = Fin (1 / 10), bp_secondBurn = Fin (1 / 20)\<rparr>"
  by (simp add: large_cap_state_def js_defs Let_def)

lemma large_cap_sell_quote:
  "calculateSellTokens large_cap_state (Fin 100) =
     (Inr \<lparr>baseReceived = Fin 99, sell_fee = Fin 1, sell_newPrice = Fin 1\<rparr>, large_cap_state)"
  by (simp add: large_cap_state_eq calculateSellTokens_def calculatePoolBalance_def Let_def)

lemma large_cap_sell_update:
  "sell_update large_cap_state (Fin 100) \<lparr>baseReceived = Fin 99, sell_fee = Fin 1, sell_newPrice = Fin 1\<rparr>
     = large_cap_state\<lparr>currentSupply := Fin 799999900, poolBalance := Fin 799999900\<rparr>"
  by (simp add: large_cap_state_eq sell_update_def Let_def)

lemma large_cap_sell_milestones:
  "checkMilestones (large_cap_state\<lparr>currentSupply := Fin 799999900, poolBalance := Fin 799999900\<rparr>)
     = large_cap_state\<lparr>currentSupply := Fin 799999900, poolBalance := Fin (1367999829 / 2)\<rparr>"
  by (simp add: large_cap_state_eq checkMilestones_def getCurrentPrice_def price_divisor_def
      burnLiquidity_def Let_def)

lemma large_cap_buy_quote:
  "calculateBuyTokens large_cap_state (Fin 100) =
     (Inr \<lparr>tokensReceived = Fin 99, buy_fee = Fin 1, buy_newPrice = Fin 1\<rparr>, large_cap_state)"
  by (simp add: large_cap_state_eq calculateBuyTokens_def calculatenewSupply_def Let_def)

lemma large_cap_buy_update:
  "buy_update large_cap_state (Fin 100) \<lparr>tokensReceived = Fin 99, buy_fee = Fin 1, buy_newPrice = Fin 1\<rparr>
     = large_cap_state\<lparr>currentSupply := Fin 800000099, poolBalance := Fin 800000099\<rparr>"
  by (simp add: large_cap_state_eq buy_update_def Let_def)

lemma large_cap_buy_milestones:
  "checkMilestones (large_cap_state\<lparr>currentSupply := Fin 800000099, poolBalance := Fin 800000099\<rparr>)
     = large_cap_state\<lparr>currentSupply := Fin 800000099, poolBalance := Fin (136800016929 / 200)\<rparr>"
  by (simp add: large_cap_state_eq checkMilestones_def getCurrentPrice_def price_divisor_def
      burnLiquidity_def Let_def)

lemma milestone_state_eq:
  "milestone_state =
     \<lparr>initialSupply = Fin 800000000, reserveRatio = Fin (1 / 5),
      initialPrice = Fin 1, fee = Fin (1 / 100),
      currentSupply = Fin 800000000, poolBalance = Fin 160000000,
      lm_addDexLiquidity = Fin 69000, lm_firstBurn = Fin 100000, lm_secondBurn = Fin 1000000,
      bp_firstBurn = Fin (1 / 10), bp_secondBurn = Fin (1 / 20)\<rparr>"
  by (simp add: milestone_state_def js_defs Let_def)

lemma first_buy_quote:
  "calculateBuyTokens milestone_state (Fin 1600000) =
     (Inr \<lparr>tokensReceived = Fin (5048985111489950499 / 125000000000), buy_fee = Fin 16000,
           buy_newPrice = Fin 1\<rparr>, milestone_state)"
  by (simp add: milestone_state_eq calculateBuyTokens_def calculatenewSupply_def Let_def
      power_divide)

lemma first_buy_update:
  "buy_update milestone_state (Fin 1600000)
     \<lparr>tokensReceived = Fin (5048985111489950499 / 125000000000), buy_fee = Fin 16000,
      buy_newPrice = Fin 1\<rparr>
   = milestone_state\<lparr>currentSupply := Fin (105048985111489950499 / 125000000000),
       poolBalance := Fin 161584000\<rparr>"
  by (simp add: milestone_state_eq buy_update_def Let_def)

lemma first_buy_milestones:
  "checkMilestones (milestone_state\<lparr>currentSupply := Fin (105048985111489950499 / 125000000000),
       poolBalance := Fin 161584000\<rparr>)
   = milestone_state\<lparr>currentSupply := Fin (105048985111489950499 / 125000000000),
       poolBalance := Fin 138154320\<rparr>"
  by (simp add: milestone_state_eq checkMilestones_def getCurrentPrice_def price_divisor_def
      burnLiquidity_def Let_def)

lemma first_buy_state:
  "snd (executeBuy milestone_state (Fin 1600000))
   = milestone_state\<lparr>currentSupply := Fin (105048985111489950499 / 125000000000),
       poolBalance := Fin 138154320\<rparr>"
  by (simp only: executeBuy_state [OF first_buy_quote] first_buy_update first_buy_milestones)

lemma second_buy_quote:
  "calculateBuyTokens (milestone_state\<lparr>currentSupply := Fin (105048985111489950499 / 125000000000),
       poolBalance := Fin 138154320\<rparr>) (Fin (6907716 / 5)) =
     (Inr \<lparr>tokensReceived =
             Fin (530390761805042237770396092269470349001 / 12500000000000000000000000000000),
           buy_fee = Fin (1726929 / 125),
           buy_newPrice = Fin (410981838179394643 / 500000000000000000)\<rparr>,
      milestone_state\<lparr>currentSupply := Fin (105048985111489950499 / 125000000000),
       poolBalance := Fin 138154320\<rparr>)"
  by (simp add: milestone_state_eq calculateBuyTokens_def calculatenewSupply_def Let_def
      power_divide)

lemma second_buy_update:
  "buy_update (milestone_state\<lparr>currentSupply := Fin (105048985111489950499 / 125000000000),
       poolBalance := Fin 138154320\<rparr>) (Fin (6907716 / 5))
     \<lparr>tokensReceived =
        Fin (530390761805042237770396092269470349001 / 12500000000000000000000000000000),
      buy_fee = Fin (1726929 / 125),
      buy_newPrice = Fin (410981838179394643 / 500000000000000000)\<rparr>
   = milestone_state\<lparr>currentSupply :=
         Fin (11035289272954037287670396092269470349001 / 12500000000000000000000000000000),
       poolBalance := Fin (17440255971 / 125)\<rparr>"
  by (simp add: milestone_state_eq buy_update_def Let_def)

lemma second_buy_milestones:
  "checkMilestones (milestone_state\<lparr>currentSupply :=
         Fin (11035289272954037287670396092269470349001 / 12500000000000000000000000000000),
       poolBalance := Fin (17440255971 / 125)\<rparr>)
   = milestone_state\<lparr>currentSupply :=
         Fin (11035289272954037287670396092269470349001 / 12500000000000000000000000000000),
       poolBalance := Fin (2982283771041 / 25000)\<rparr>"
  by (simp add: milestone_state_eq checkMilestones_def getCurrentPrice_def price_divisor_def
      burnLiquidity_def Let_def)

lemma second_buy_state:
  "snd (executeBuy (milestone_state\<lparr>currentSupply := Fin (105048985111489950499 / 125000000000),
       poolBalance := Fin 138154320\<rparr>) (Fin (6907716 / 5)))
   = milestone_state\<lparr>currentSupply :=
         Fin (11035289272954037287670396092269470349001 / 12500000000000000000000000000000),
       poolBalance := Fin (2982283771041 / 25000)\<rparr>"
  by (simp only: executeBuy_state [OF second_buy_quote] second_buy_update second_buy_milestones)

lemma ratio_03_state_eq:
  "ratio_03_state =
     \<lparr>initialSupply = Fin 800000000, reserveRatio = Fin (3 / 10),
      initialPrice = Fin (1 / 10000000), fee = Fin (1 / 100),
      currentSupply = Fin 800000000, poolBalance = Fin 24,
      lm_addDexLiquidity = Fin 69000, lm_firstBurn = Fin 100000, lm_secondBurn = Fin 1000000,
      bp_firstBurn = Fin (1 / 10), bp_secondBurn = Fin (1 / 20)\<rparr>"
  by (simp add: ratio_03_state_def js_defs Let_def)

lemma zero_fee_state_eq:
  "zero_fee_state =
     \<lparr>initialSupply = Fin 1, reserveRatio = Fin 1, initialPrice = Fin 1, fee = Fin 0,
      currentSupply = Fin 1, poolBalance = Fin 1,
      lm_addDexLiquidity = Fin 69000, lm_firstBurn = Fin 100000, lm_secondBurn = Fin 1000000,
      bp_firstBurn = Fin (1 / 10), bp_secondBurn = Fin (1 / 20)\<rparr>"
  by (simp add: zero_fee_state_def js_defs Let_def)

lemma zero_fee_buy_quote:
  "calculateBuyTokens zero_fee_state (Fin 2) =
     (Inr \<lparr>tokensReceived = Fin 2, buy_fee = Fin 0, buy_newPrice = Fin 1\<rparr>, zero_fee_state)"
  by (simp add: zero_fee_state_eq calculateBuyTokens_def calculatenewSupply_def Let_def)

lemma zero_fee_buy_update:
  "buy_update zero_fee_state (Fin 2) \<lparr>tokensReceived = Fin 2, buy_fee = Fin 0, buy_newPrice = Fin 1\<rparr>
     = zero_fee_state\<lparr>currentSupply := Fin 3, poolBalance := Fin 3\<rparr>"
  by (simp add: zero_fee_state_eq buy_update_def Let_def)

lemma zero_fee_buy_milestones:
  "checkMilestones (zero_fee_state\<lparr>currentSupply := Fin 3, poolBalance := Fin 3\<rparr>)
     = zero_fee_state\<lparr>currentSupply := Fin 3, poolBalance := Fin 3\<rparr>"
  by (simp add: zero_fee_state_eq checkMilestones_def getCurrentPrice_def price_divisor_def
      burnLiquidity_def Let_def)

lemma zero_fee_buy:
  "executeBuy zero_fee_state (Fin 2) =
     (Inr \<lparr>xb_tokensReceived = Fin 2, xb_fee = Fin 0, xb_newPrice = Fin 1,
           xb_currentSupply = Fin 3, xb_poolBalance = Fin 3\<rparr>,
      zero_fee_state\<lparr>currentSupply := Fin 3, poolBalance := Fin 3\<rparr>)"
proof -
  have "getCurrentPrice (zero_fee_state\<lparr>currentSupply := Fin 3, poolBalance := Fin 3\<rparr>) = Fin 1"
    by (simp add: zero_fee_state_eq getCurrentPrice_def price_divisor_def)
  then show ?thesis
    by (simp add: executeBuy_def zero_fee_buy_quote zero_fee_buy_update zero_fee_buy_milestones
        Let_def)
qed

lemma zero_fee_sell:
  "fst (executeSell (zero_fee_state\<lparr>currentSupply := Fin 3, poolBalance := Fin 3\<rparr>) (Fin 2)) =
     Inr \<lparr>xs_baseReceived = Fin (2000000000000000001 / 1000000000000000000), xs_fee = Fin 0,
          xs_newPrice = Fin (999999999999999999 / 1000000000000000000),
          xs_currentSupply = Fin 1,
          xs_poolBalance = Fin (999999999999999999 / 1000000000000000000)\<rparr>"
  by (simp add: zero_fee_state_eq executeSell_def calculateSellTokens_def
      calculatePoolBalance_def sell_update_def getCurrentPrice_def price_divisor_def Let_def)

lemma zero_fee_sell_quote:
  "calculateSellTokens (zero_fee_state\<lparr>currentSupply := Fin 3, poolBalance := Fin 3\<rparr>) (Fin 2) =
     (Inr \<lparr>baseReceived = Fin (2000000000000000001 / 1000000000000000000), sell_fee = Fin 0,
           sell_newPrice = Fin (999999999999999999 / 1000000000000000000)\<rparr>,
      zero_fee_state\<lparr>currentSupply := Fin 3, poolBalance := Fin 3\<rparr>)"
  by (simp add: zero_fee_state_eq calculateSellTokens_def calculatePoolBalance_def Let_def)

lemma zero_fee_sell_prices:
  "getCurrentPrice (zero_fee_state\<lparr>currentSupply := Fin 3, poolBalance := Fin 3\<rparr>) = Fin 1
   \<and> getCurrentPrice (snd (executeSell (zero_fee_state\<lparr>currentSupply := Fin 3, poolBalance := Fin 3\<rparr>)
         (Fin 2))) = Fin (999999999999999999 / 1000000000000000000)"
  by (simp add: zero_fee_state_eq executeSell_def calculateSellTokens_def
      calculatePoolBalance_def sell_update_def getCurrentPrice_def price_divisor_def Let_def)

text \<open>
  With the default reserve ratio 0.2 no sale completes: \<^verbatim>\<open>calculatePoolBalance\<close> raises
  the ratio of the supplies to the power 0.2, which the library rejects. So selling back
  the tokens of a buy of 100 on the default object raises an error and changes nothing.
\<close>

lemma default_buy_quote:
  "calculateBuyTokens (constructor no_params) (Fin 100) =
     (Inr \<lparr>tokensReceived = Fin (7856454413671875 / 512), buy_fee = Fin 1,
           buy_newPrice = Fin (1 / 10000000)\<rparr>, constructor no_params)"
  by (simp add: constructor_default calculateBuyTokens_def calculatenewSupply_def Let_def
      power_divide)

lemma default_buy_update:
  "buy_update (constructor no_params) (Fin 100)
     \<lparr>tokensReceived = Fin (7856454413671875 / 512), buy_fee = Fin 1,
      buy_newPrice = Fin (1 / 10000000)\<rparr>
   = (constructor no_params)\<lparr>currentSupply := Fin (7856864013671875 / 512),
       poolBalance := Fin 115\<rparr>"
  by (simp add: constructor_default buy_update_def Let_def)

lemma default_buy_milestones:
  "checkMilestones ((constructor no_params)\<lparr>currentSupply := Fin (7856864013671875 / 512),
       poolBalance := Fin 115\<rparr>)
   = (constructor no_params)\<lparr>currentSupply := Fin (7856864013671875 / 512),
       poolBalance := Fin 115\<rparr>"
  by (simp add: constructor_default checkMilestones_def getCurrentPrice_def price_divisor_def
      burnLiquidity_def Let_def)

lemma default_buy_state:
  "snd (executeBuy (constructor no_params) (Fin 100))
   = (constructor no_params)\<lparr>currentSupply := Fin (7856864013671875 / 512),
       poolBalance := Fin 115\<rparr>"
  by (simp only: executeBuy_state [OF default_buy_quote] default_buy_update
      default_buy_milestones)

lemma default_sell_back_fails:
  "executeSell (snd (executeBuy (constructor no_params) (Fin 100)))
       (Fin (7856454413671875 / 512))
   = (Inl ExponentNotInteger, snd (executeBuy (constructor no_params) (Fin 100)))"
  unfolding default_buy_state
  by (simp add: constructor_default executeSell_def calculateSellTokens_def
      calculatePoolBalance_def bn_pow_Fin_not_integer Let_def)

lemma default_buy_prices:
  "getCurrentPrice (constructor no_params) = Fin (1 / 10000000)
   \<and> getCurrentPrice (snd (executeBuy (constructor no_params) (Fin 100)))
       = Fin (1873521 / 50000000000000000)"
  unfolding default_buy_state
  by (simp add: constructor_default getCurrentPrice_def price_divisor_def)

lemma neg_ratio_state_eq:
  "neg_ratio_state =
     \<lparr>initialSupply = Fin 800000000, reserveRatio = Fin (- 1),
      initialPrice = Fin (- 1), fee = Fin (1 / 100),
      currentSupply = Fin 800000000, poolBalance = Fin 800000000,
      lm_addDexLiquidity = Fin 69000, lm_firstBurn = Fin 100000, lm_secondBurn = Fin 1000000,
      bp_firstBurn = Fin (1 / 10), bp_secondBurn = Fin (1 / 20)\<rparr>"
  by (simp add: neg_ratio_state_def js_defs Let_def)

lemma neg_ratio_buy_quote:
  "calculateBuyTokens neg_ratio_state (Fin 100) =
     (Inr \<lparr>tokensReceived = Fin (- (61874992343 / 625000000)), buy_fee = Fin 1,
           buy_newPrice = Fin (- 1)\<rparr>, neg_ratio_state)"
  by (simp add: neg_ratio_state_eq calculateBuyTokens_def calculatenewSupply_def Let_def
      bn_pow_def pow_short_cut_def)

lemma tiny_ratio_state_eq:
  "tiny_ratio_state =
     \<lparr>initialSupply = Fin 800000000, reserveRatio = Fin (1 / 10000000000),
      initialPrice = Fin (1 / 10000000), fee = Fin (1 / 100),
      currentSupply = Fin 800000000, poolBalance = Fin (1 / 125000000),
      lm_addDexLiquidity = Fin 69000, lm_firstBurn = Fin 100000, lm_secondBurn = Fin 1000000,
      bp_firstBurn = Fin (1 / 10), bp_secondBurn = Fin (1 / 20)\<rparr>"
  by (simp add: tiny_ratio_state_def js_defs Let_def)

lemma tiny_ratio_buy_quote:
  "calculateBuyTokens tiny_ratio_state (Fin 100) =
     (Inr \<lparr>tokensReceived = PInf, buy_fee = Fin 1, buy_newPrice = Fin (1 / 10000000)\<rparr>,
      tiny_ratio_state)"
  by (simp add: tiny_ratio_state_eq calculateBuyTokens_def calculatenewSupply_def Let_def
      bn_pow_def pow_short_cut_def inf_of_sign_def bn_times_def bn_minus_def bn_plus_def
      bn_negate_def is_neg_def)


section \<open>Quotes read the state and never change it\<close>

text \<open>
  C8. \<^verbatim>\<open>calculateBuyTokens\<close> and \<^verbatim>\<open>calculateSellTokens\<close> are pure: for every state and
  every amount, whether the call returns a quote or raises, the state after the call is
  the state before it, field by field.
\<close>

theorem quotes_are_pure:
  "snd (calculateBuyTokens s amount) = s \<and> snd (calculateSellTokens s amount) = s"
  by (simp add: calculateBuyTokens_def calculateSellTokens_def Let_def split: sum.splits)

section \<open>Selling more than the supply\<close>

text \<open>
  C3. When the amount of tokens is strictly greater than \<^verbatim>\<open>currentSupply\<close>, both
  \<^verbatim>\<open>calculateSellTokens\<close> and \<^verbatim>\<open>executeSell\<close> raise the insufficient-balance error, and
  the state after the failed \<^verbatim>\<open>executeSell\<close> is the state before it.
\<close>

theorem sell_above_supply_fails:
  assumes "bn_gt tokenAmount (currentSupply s)"
  shows "calculateSellTokens s tokenAmount = (Inl InsufficientBalance, s)
       \<and> executeSell s tokenAmount = (Inl InsufficientBalance, s)"
  using assms by (simp add: calculateSellTokens_def executeSell_def)

theorem sell_above_supply_fails_witness:
  "bn_gt (Fin 800000001) (currentSupply (constructor no_params))
   \<and> calculateSellTokens (constructor no_params) (Fin 800000001)
       = (Inl InsufficientBalance, constructor no_params)
   \<and> executeSell (constructor no_params) (Fin 800000001)
       = (Inl InsufficientBalance, constructor no_params)"
proof -
  have h: "bn_gt (Fin 800000001) (currentSupply (constructor no_params))"
    by (simp add: constructor_default)
  show ?thesis
    using h sell_above_supply_fails [OF h] by simp
qed

section \<open>The price fields of the two quotes\<close>

text \<open>
  C5. The price fields of the two quotes are computed differently. Whenever
  \<^verbatim>\<open>calculateBuyTokens\<close> returns a quote, its \<^verbatim>\<open>newPrice\<close> is
  \<^verbatim>\<open>poolBalance / (currentSupply * reserveRatio)\<close> of the state before the trade. Whenever
  \<^verbatim>\<open>calculateSellTokens\<close> returns a quote, its \<^verbatim>\<open>newPrice\<close> is the pool balance computed
  for the supply after the sale, divided by that supply times \<^verbatim>\<open>reserveRatio\<close>.
\<close>

theorem quote_price_asymmetry:
  "(\<forall>q s'. calculateBuyTokens s amount = (Inr q, s') \<longrightarrow>
       buy_newPrice q = bn_div (poolBalance s) (bn_times (currentSupply s) (reserveRatio s)))
   \<and> (\<forall>q s'. calculateSellTokens s amount = (Inr q, s') \<longrightarrow>
       (\<exists>targetPool.
          calculatePoolBalance s (bn_minus (currentSupply s) amount) = Inr targetPool
          \<and> sell_newPrice q =
              bn_div targetPool (bn_times (bn_minus (currentSupply s) amount) (reserveRatio s))))"
proof (intro conjI allI impI)
  fix q s'
  assume "calculateBuyTokens s amount = (Inr q, s')"
  then show "buy_newPrice q = bn_div (poolBalance s) (bn_times (currentSupply s) (reserveRatio s))"
    by (auto simp: calculateBuyTokens_def Let_def split: sum.splits)
next
  fix q s'
  assume "calculateSellTokens s amount = (Inr q, s')"
  then show "\<exists>targetPool.
      calculatePoolBalance s (bn_minus (currentSupply s) amount) = Inr targetPool
      \<and> sell_newPrice q =
          bn_div targetPool (bn_times (bn_minus (currentSupply s) amount) (reserveRatio s))"
    by (auto simp: calculateSellTokens_def Let_def split: sum.splits if_splits)
qed

text \<open>
  On the default object a buy of 100 is quoted at the price before the trade, 0.0000001,
  where the price after the executed trade is 0.00000000003747042. On the object with pool
  balance 3 and supply 3 that a buy of 2 leaves behind \<open>zero_fee_state\<close>, a sale of 2 is
  quoted at the price after the trade, 0.999999999999999999, where the price before it
  is 1.
\<close>

theorem quote_price_asymmetry_witness:
  "(\<exists>q. fst (calculateBuyTokens (constructor no_params) (Fin 100)) = Inr q
       \<and> buy_newPrice q = Fin (1 / 10000000)
       \<and> buy_newPrice q = getCurrentPrice (constructor no_params)
       \<and> buy_newPrice q \<noteq> getCurrentPrice (snd (executeBuy (constructor no_params) (Fin 100))))
   \<and> (\<exists>q. fst (calculateSellTokens (zero_fee_state\<lparr>currentSupply := Fin 3, poolBalance := Fin 3\<rparr>)
             (Fin 2)) = Inr q
       \<and> sell_newPrice q = Fin (999999999999999999 / 1000000000000000000)
       \<and> sell_newPrice q
           = getCurrentPrice (snd (executeSell
               (zero_fee_state\<lparr>currentSupply := Fin 3, poolBalance := Fin 3\<rparr>) (Fin 2)))
       \<and> sell_newPrice q
           \<noteq> getCurrentPrice (zero_fee_state\<lparr>currentSupply := Fin 3, poolBalance := Fin 3\<rparr>))"
proof -
  let ?d = "constructor no_params"
  let ?qb = "\<lparr>tokensReceived = Fin (7856454413671875 / 512), buy_fee = Fin 1,
             buy_newPrice = Fin (1 / 10000000)\<rparr>"
  let ?z = "zero_fee_state\<lparr>currentSupply := Fin 3, poolBalance := Fin 3\<rparr>"
  let ?qs = "\<lparr>baseReceived = Fin (2000000000000000001 / 1000000000000000000), sell_fee = Fin 0,
             sell_newPrice = Fin (999999999999999999 / 1000000000000000000)\<rparr>"
  from quote_price_asymmetry [of ?d "Fin 100"] default_buy_quote
  have "buy_newPrice ?qb = bn_div (poolBalance ?d) (bn_times (currentSupply ?d) (reserveRatio ?d))"
    by blast
  then have b1: "buy_newPrice ?qb = getCurrentPrice ?d"
    by (simp only: getCurrentPrice_def price_divisor_def)
  have b2: "buy_newPrice ?qb \<noteq> getCurrentPrice (snd (executeBuy ?d (Fin 100)))"
    using default_buy_prices by simp
  have b0: "fst (calculateBuyTokens ?d (Fin 100)) = Inr ?qb"
    by (simp only: default_buy_quote fst_conv)
  from quote_price_asymmetry [of ?z "Fin 2"] zero_fee_sell_quote
  obtain targetPool where t: "calculatePoolBalance ?z (bn_minus (currentSupply ?z) (Fin 2)) = Inr targetPool"
    and p: "sell_newPrice ?qs = bn_div targetPool (bn_times (bn_minus (currentSupply ?z) (Fin 2)) (reserveRatio ?z))"
    by blast
  have "calculatePoolBalance ?z (bn_minus (currentSupply ?z) (Fin 2))
      = Inr (Fin (999999999999999999 / 1000000000000000000))"
    by (simp add: zero_fee_state_eq calculatePoolBalance_def)
  with t have "targetPool = Fin (999999999999999999 / 1000000000000000000)"
    by simp
  with p have s1: "sell_newPrice ?qs = getCurrentPrice (snd (executeSell ?z (Fin 2)))"
    using zero_fee_sell_prices by (simp add: zero_fee_state_eq)
  have s2: "sell_newPrice ?qs \<noteq> getCurrentPrice ?z"
    using zero_fee_sell_prices by simp
  have s0: "fst (calculateSellTokens ?z (Fin 2)) = Inr ?qs"
    by (simp only: zero_fee_sell_quote fst_conv)
  have "\<exists>q. fst (calculateBuyTokens ?d (Fin 100)) = Inr q
       \<and> buy_newPrice q = Fin (1 / 10000000)
       \<and> buy_newPrice q = getCurrentPrice ?d
       \<and> buy_newPrice q \<noteq> getCurrentPrice (snd (executeBuy ?d (Fin 100)))"
    using b0 b1 b2 by (intro exI [of _ ?qb]) simp
  moreover have "\<exists>q. fst (calculateSellTokens ?z (Fin 2)) = Inr q
       \<and> sell_newPrice q = Fin (999999999999999999 / 1000000000000000000)
       \<and> sell_newPrice q = getCurrentPrice (snd (executeSell ?z (Fin 2)))
       \<and> sell_newPrice q \<noteq> getCurrentPrice ?z"
    using s0 s1 s2 by (intro exI [of _ ?qs]) simp
  ultimately show ?thesis
    by blast
qed

section \<open>Constructor defaults\<close>

text \<open>
  C10, as the claim states it, fails: a zero fee rate and a zero starting supply can be
  configured, by passing the zero as the string \<^verbatim>\<open>'0'\<close> or as a \<^verbatim>\<open>BigNumber\<close>, both of
  which are truthy.
\<close>

theorem zero_param_counterexample:
  "fee (constructor (no_params\<lparr>p_fee := JString ''0''\<rparr>)) = Fin 0
   \<and> fee (constructor (no_params\<lparr>p_fee := JBigNumber (Fin 0)\<rparr>)) = Fin 0
   \<and> currentSupply (constructor (no_params\<lparr>p_currentSupply := JString ''0''\<rparr>)) = Fin 0
   \<and> initialSupply (constructor (no_params\<lparr>p_currentSupply := JString ''0''\<rparr>)) = Fin 800000000"
  by (simp add: js_defs Let_def)

text \<open>
  C10, amended. A parameter given as the JavaScript number 0 is treated as an absent one,
  because defaulting tests truthiness: the object constructed is the one constructed
  without that parameter, so the fee rate is 0.01, the initial supply 800000000, the
  reserve ratio 0.2, the initial price 0.0000001, and \<^verbatim>\<open>currentSupply\<close> is
  \<^verbatim>\<open>initialSupply\<close>. A zero given as a \<^verbatim>\<open>BigNumber\<close> is kept.
\<close>

theorem numeric_zero_param_defaults:
  "constructor (ps\<lparr>p_fee := JNumber (Fin 0)\<rparr>) = constructor (ps\<lparr>p_fee := Undefined\<rparr>)
   \<and> fee (constructor (ps\<lparr>p_fee := JNumber (Fin 0)\<rparr>)) = Fin (1 / 100)
   \<and> constructor (ps\<lparr>p_currentSupply := JNumber (Fin 0)\<rparr>)
       = constructor (ps\<lparr>p_currentSupply := Undefined\<rparr>)
   \<and> currentSupply (constructor (ps\<lparr>p_currentSupply := JNumber (Fin 0)\<rparr>))
       = initialSupply (constructor (ps\<lparr>p_currentSupply := JNumber (Fin 0)\<rparr>))
   \<and> initialSupply (constructor (ps\<lparr>p_initialSupply := JNumber (Fin 0)\<rparr>)) = Fin 800000000
   \<and> reserveRatio (constructor (ps\<lparr>p_reserveRatio := JNumber (Fin 0)\<rparr>)) = Fin (1 / 5)
   \<and> initialPrice (constructor (ps\<lparr>p_initialPrice := JNumber (Fin 0)\<rparr>)) = Fin (1 / 10000000)
   \<and> fee (constructor (ps\<lparr>p_fee := JBigNumber (Fin 0)\<rparr>)) = Fin 0
   \<and> currentSupply (constructor (ps\<lparr>p_currentSupply := JBigNumber (Fin 0)\<rparr>)) = Fin 0"
  by (simp add: js_defs Let_def)

section \<open>Amounts are not validated\<close>

text \<open>
  C4, as the claim states it, fails: for the amount \<open>-100\<close> both calculations return a
  quote, computed by the formulas of a positive amount.
\<close>

theorem nonpositive_amount_counterexample:
  "fst (calculateBuyTokens ratio_one_state (Fin (- 100)))
     = Inr \<lparr>tokensReceived = Fin (- 990000000), buy_fee = Fin (- 1),
            buy_newPrice = Fin (1 / 10000000)\<rparr>
   \<and> fst (calculateSellTokens ratio_one_state (Fin (- 100)))
     = Inr \<lparr>baseReceived = Fin (- (99 / 10000000)), sell_fee = Fin (- (1 / 10000000)),
            sell_newPrice = Fin (1 / 10000000)\<rparr>"
  by (simp add: ratio_one_state_eq calculateBuyTokens_def calculatenewSupply_def
      calculateSellTokens_def calculatePoolBalance_def Let_def)

text \<open>
  C4, amended. Neither calculation validates its amount, so neither raises an
  invalid-amount error, for any amount: \<^verbatim>\<open>calculateBuyTokens\<close> raises nothing but the
  library's error for an exponent that is not an integer, and \<^verbatim>\<open>calculateSellTokens\<close>
  nothing but that error and the insufficient-balance error.
\<close>

theorem no_invalid_amount_error:
  "fst (calculateBuyTokens s amount) \<noteq> Inl InvalidAmount
   \<and> fst (calculateBuyTokens s amount) \<noteq> Inl InsufficientBalance
   \<and> fst (calculateSellTokens s amount) \<noteq> Inl InvalidAmount"
  by (auto simp: calculateBuyTokens_def calculatenewSupply_def calculateSellTokens_def
      calculatePoolBalance_def Let_def split: sum.splits dest: bn_pow_error)

section \<open>Milestone evaluation after an execution\<close>

text \<open>
  C2, as the claim states it, fails for \<^verbatim>\<open>executeSell\<close>. On an object whose market
  capitalisation is above every threshold, the state after selling 100 tokens is the state
  after the two assignments, with a pool balance of 799999900; an evaluation of the
  milestones on that state would have burned the pool down to 683999914.5.
\<close>

theorem sell_skips_milestones_counterexample:
  "fst (calculateSellTokens large_cap_state (Fin 100))
     = Inr \<lparr>baseReceived = Fin 99, sell_fee = Fin 1, sell_newPrice = Fin 1\<rparr>
   \<and> poolBalance (snd (executeSell large_cap_state (Fin 100))) = Fin 799999900
   \<and> poolBalance (checkMilestones (sell_update large_cap_state (Fin 100)
         \<lparr>baseReceived = Fin 99, sell_fee = Fin 1, sell_newPrice = Fin 1\<rparr>)) = Fin (1367999829 / 2)
   \<and> snd (executeSell large_cap_state (Fin 100))
       \<noteq> checkMilestones (sell_update large_cap_state (Fin 100)
           \<lparr>baseReceived = Fin 99, sell_fee = Fin 1, sell_newPrice = Fin 1\<rparr>)"
proof -
  have a: "snd (executeSell large_cap_state (Fin 100))
      = large_cap_state\<lparr>currentSupply := Fin 799999900, poolBalance := Fin 799999900\<rparr>"
    by (simp only: executeSell_state [OF large_cap_sell_quote] large_cap_sell_update)
  have b: "checkMilestones (sell_update large_cap_state (Fin 100)
        \<lparr>baseReceived = Fin 99, sell_fee = Fin 1, sell_newPrice = Fin 1\<rparr>)
      = large_cap_state\<lparr>currentSupply := Fin 799999900, poolBalance := Fin (1367999829 / 2)\<rparr>"
    by (simp only: large_cap_sell_update large_cap_sell_milestones)
  have c: "poolBalance (snd (executeSell large_cap_state (Fin 100))) = Fin 799999900"
    unfolding a by simp
  have d: "poolBalance (checkMilestones (sell_update large_cap_state (Fin 100)
        \<lparr>baseReceived = Fin 99, sell_fee = Fin 1, sell_newPrice = Fin 1\<rparr>)) = Fin (1367999829 / 2)"
    unfolding b by simp
  have e: "snd (executeSell large_cap_state (Fin 100))
       \<noteq> checkMilestones (sell_update large_cap_state (Fin 100)
           \<lparr>baseReceived = Fin 99, sell_fee = Fin 1, sell_newPrice = Fin 1\<rparr>)"
  proof
    assume "snd (executeSell large_cap_state (Fin 100))
       = checkMilestones (sell_update large_cap_state (Fin 100)
           \<lparr>baseReceived = Fin 99, sell_fee = Fin 1, sell_newPrice = Fin 1\<rparr>)"
    then have "Fin 799999900 = Fin (1367999829 / 2)"
      using c d by simp
    then show False by simp
  qed
  show ?thesis
    using c d e by (simp add: large_cap_sell_quote)
qed

text \<open>
  C2, amended. \<^verbatim>\<open>executeBuy\<close> evaluates the milestones after its two assignments: when
  the quote succeeds, the state it leaves is \<open>checkMilestones\<close> of the updated state.
  \<^verbatim>\<open>executeSell\<close> does not: when the quote succeeds, the state it leaves is the updated
  state itself.
\<close>

theorem milestones_after_buy_only:
  "(calculateBuyTokens s amount = (Inr qb, sb) \<longrightarrow>
      snd (executeBuy s amount) = checkMilestones (buy_update s amount qb))
   \<and> (calculateSellTokens s amount = (Inr qs, ss) \<longrightarrow>
      snd (executeSell s amount) = sell_update s amount qs)"
proof (intro conjI impI)
  assume h: "calculateBuyTokens s amount = (Inr qb, sb)"
  have "sb = s"
    using quotes_pure_buy [of s amount] h by simp
  then show "snd (executeBuy s amount) = checkMilestones (buy_update s amount qb)"
    using executeBuy_state [OF h] by simp
next
  assume h: "calculateSellTokens s amount = (Inr qs, ss)"
  have "ss = s"
    using quotes_pure_sell [of s amount] h by simp
  then show "snd (executeSell s amount) = sell_update s amount qs"
    using executeSell_state [OF h] by simp
qed

text \<open>
  On the object constructed with \<^verbatim>\<open>{reserveRatio: 1, initialPrice: 1}\<close>, whose market
  capitalisation is above every threshold, a buy of 100 raises the pool balance to
  800000099 and leaves it at 684000084.645, after both burns; a sale of 100 lowers it to
  799999900 and leaves it there.
\<close>

theorem milestones_after_buy_only_witness:
  "snd (executeBuy large_cap_state (Fin 100))
     = checkMilestones (buy_update large_cap_state (Fin 100)
         \<lparr>tokensReceived = Fin 99, buy_fee = Fin 1, buy_newPrice = Fin 1\<rparr>)
   \<and> poolBalance (buy_update large_cap_state (Fin 100)
         \<lparr>tokensReceived = Fin 99, buy_fee = Fin 1, buy_newPrice = Fin 1\<rparr>) = Fin 800000099
   \<and> poolBalance (snd (executeBuy large_cap_state (Fin 100))) = Fin (136800016929 / 200)
   \<and> snd (executeSell large_cap_state (Fin 100))
     = sell_update large_cap_state (Fin 100)
         \<lparr>baseReceived = Fin 99, sell_fee = Fin 1, sell_newPrice = Fin 1\<rparr>
   \<and> poolBalance (snd (executeSell large_cap_state (Fin 100))) = Fin 799999900
   \<and> poolBalance (checkMilestones (sell_update large_cap_state (Fin 100)
         \<lparr>baseReceived = Fin 99, sell_fee = Fin 1, sell_newPrice = Fin 1\<rparr>))
       = Fin (1367999829 / 2)"
proof -
  let ?qb = "\<lparr>tokensReceived = Fin 99, buy_fee = Fin 1, buy_newPrice = Fin 1\<rparr>"
  let ?qs = "\<lparr>baseReceived = Fin 99, sell_fee = Fin 1, sell_newPrice = Fin 1\<rparr>"
  from milestones_after_buy_only
    [of large_cap_state "Fin 100" ?qb large_cap_state ?qs large_cap_state]
    large_cap_buy_quote large_cap_sell_quote
  have b: "snd (executeBuy large_cap_state (Fin 100))
      = checkMilestones (buy_update large_cap_state (Fin 100) ?qb)"
    and s: "snd (executeSell large_cap_state (Fin 100)) = sell_update large_cap_state (Fin 100) ?qs"
    by blast+
  have b1: "poolBalance (buy_update large_cap_state (Fin 100) ?qb) = Fin 800000099"
    by (simp only: large_cap_buy_update) simp
  have b2: "poolBalance (snd (executeBuy large_cap_state (Fin 100))) = Fin (136800016929 / 200)"
    by (simp only: b large_cap_buy_update large_cap_buy_milestones) simp
  have s1: "poolBalance (snd (executeSell large_cap_state (Fin 100))) = Fin 799999900"
    by (simp only: s large_cap_sell_update) simp
  have s2: "poolBalance (checkMilestones (sell_update large_cap_state (Fin 100) ?qs))
      = Fin (1367999829 / 2)"
    by (simp only: large_cap_sell_update large_cap_sell_milestones) simp
  from b b1 b2 s s1 s2 show ?thesis
    by (intro conjI)
qed


section \<open>Selling the whole supply\<close>

text \<open>
  C9, as the claim states it, fails for the trades that sell a positive amount. After
  \<^verbatim>\<open>executeSell\<close> of the whole supply on the object constructed with
  \<^verbatim>\<open>{reserveRatio: 1}\<close> the supply is 0, and a sale of 1 token is stopped by the balance
  check, before any division: it raises the insufficient-balance error and leaves the
  state as it is.
\<close>

theorem zero_supply_sell_counterexample:
  "currentSupply (snd (executeSell ratio_one_state (Fin 800000000))) = Fin 0
   \<and> executeSell (snd (executeSell ratio_one_state (Fin 800000000))) (Fin 1)
       = (Inl InsufficientBalance, snd (executeSell ratio_one_state (Fin 800000000)))"
  unfolding ratio_one_sell_all snd_conv
  by (simp add: executeSell_def calculateSellTokens_def)

text \<open>
  C9, amended. The balance check of \<^verbatim>\<open>calculateSellTokens\<close> lets an amount equal to
  \<^verbatim>\<open>currentSupply\<close> pass. On the object constructed with \<^verbatim>\<open>{reserveRatio: 1}\<close>,
  \<^verbatim>\<open>executeSell\<close> of exactly the current supply returns a result and leaves
  \<^verbatim>\<open>currentSupply\<close> at 0. In every state whose \<^verbatim>\<open>currentSupply\<close> is 0 (with a finite
  reserve ratio) the divisor of the price formula is 0, with no guard before the division:
  \<^verbatim>\<open>getCurrentPrice\<close> returns NaN or an infinity, \<^verbatim>\<open>getMarketCap\<close> returns NaN, and the
  price of every buy quote that is returned is NaN or an infinity. A sale of a positive
  amount is stopped by the balance check before any division. A sale of any other amount
  divides by the zero supply: its supply ratio is NaN or an infinity, and so are, with a
  positive reserve ratio, the proceeds of every quote that is returned.
\<close>

theorem sell_all_then_division_by_zero:
  "\<not> bn_gt (currentSupply s) (currentSupply s)
   \<and> (\<exists>res. fst (executeSell ratio_one_state (currentSupply ratio_one_state)) = Inr res)
   \<and> currentSupply (snd (executeSell ratio_one_state (currentSupply ratio_one_state))) = Fin 0
   \<and> (currentSupply s = Fin 0 \<and> reserveRatio s = Fin r \<longrightarrow>
        price_divisor s = Fin 0
        \<and> getCurrentPrice s \<in> {NaN, PInf, NInf}
        \<and> getMarketCap s = NaN
        \<and> (\<forall>a q s'. calculateBuyTokens s a = (Inr q, s') \<longrightarrow> buy_newPrice q \<in> {NaN, PInf, NInf})
        \<and> (\<forall>a. bn_gt a (Fin 0) \<longrightarrow> executeSell s a = (Inl InsufficientBalance, s))
        \<and> (\<forall>a. \<not> bn_gt a (Fin 0) \<longrightarrow>
              bn_div (bn_minus (currentSupply s) a) (currentSupply s) \<in> {NaN, PInf, NInf})
        \<and> (0 < r \<longrightarrow>
              (\<forall>a q s'. calculateSellTokens s a = (Inr q, s') \<longrightarrow>
                 baseReceived q \<in> {NaN, PInf, NInf})))"
proof (intro conjI impI)
  show "\<not> bn_gt (currentSupply s) (currentSupply s)"
    by (rule bn_gt_irrefl)
next
  have "currentSupply ratio_one_state = Fin 800000000"
    by (simp add: ratio_one_state_eq)
  then show "\<exists>res. fst (executeSell ratio_one_state (currentSupply ratio_one_state)) = Inr res"
    by (simp add: ratio_one_sell_all)
next
  have "currentSupply ratio_one_state = Fin 800000000"
    by (simp add: ratio_one_state_eq)
  then show "currentSupply (snd (executeSell ratio_one_state (currentSupply ratio_one_state))) = Fin 0"
    by (simp add: ratio_one_sell_all)
next
  assume h: "currentSupply s = Fin 0 \<and> reserveRatio s = Fin r"
  then show d: "price_divisor s = Fin 0"
    by (simp add: price_divisor_def)
  show p: "getCurrentPrice s \<in> {NaN, PInf, NInf}"
    unfolding getCurrentPrice_def d by (rule div_by_zero_not_finite)
  show "getMarketCap s = NaN"
    using h zero_times_not_finite [OF p] by (simp add: getMarketCap_def)
  show "\<forall>a q s'. calculateBuyTokens s a = (Inr q, s') \<longrightarrow> buy_newPrice q \<in> {NaN, PInf, NInf}"
  proof (intro allI impI)
    fix a q s'
    assume "calculateBuyTokens s a = (Inr q, s')"
    then have "buy_newPrice q = getCurrentPrice s"
      by (auto simp: calculateBuyTokens_def getCurrentPrice_def price_divisor_def Let_def
          split: sum.splits)
    with p show "buy_newPrice q \<in> {NaN, PInf, NInf}"
      by simp
  qed
  show "\<forall>a. bn_gt a (Fin 0) \<longrightarrow> executeSell s a = (Inl InsufficientBalance, s)"
    using h by (simp add: executeSell_def calculateSellTokens_def)
  show "\<forall>a. \<not> bn_gt a (Fin 0) \<longrightarrow>
      bn_div (bn_minus (currentSupply s) a) (currentSupply s) \<in> {NaN, PInf, NInf}"
    using h div_by_zero_not_finite by simp
next
  assume h: "currentSupply s = Fin 0 \<and> reserveRatio s = Fin r" and r: "0 < r"
  show "\<forall>a q s'. calculateSellTokens s a = (Inr q, s') \<longrightarrow> baseReceived q \<in> {NaN, PInf, NInf}"
  proof (intro allI impI)
    fix a q s'
    assume c: "calculateSellTokens s a = (Inr q, s')"
    define ratio where "ratio = bn_div (bn_minus (Fin 0) a) (Fin 0)"
    have nf: "ratio \<in> {NaN, PInf, NInf}"
      unfolding ratio_def by (rule div_by_zero_not_finite)
    from c h obtain p where p: "bn_pow ratio (Fin r) = Inr p"
      and q: "baseReceived q =
          bn_minus (bn_minus (poolBalance s) (bn_times (poolBalance s) p))
            (bn_times (bn_minus (poolBalance s) (bn_times (poolBalance s) p)) (fee s))"
      by (auto simp: calculateSellTokens_def calculatePoolBalance_def Let_def ratio_def
          split: if_splits sum.splits)
    have "p \<in> {NaN, PInf, NInf}"
      using nf r p by (rule pow_not_finite)
    then have "bn_times (poolBalance s) p \<in> {NaN, PInf, NInf}"
      by (rule times_not_finite_right)
    then have "bn_minus (poolBalance s) (bn_times (poolBalance s) p) \<in> {NaN, PInf, NInf}"
      by (rule minus_not_finite_right)
    then have "bn_times (bn_minus (poolBalance s) (bn_times (poolBalance s) p)) (fee s)
        \<in> {NaN, PInf, NInf}"
      by (rule times_not_finite_left)
    then show "baseReceived q \<in> {NaN, PInf, NInf}"
      unfolding q by (rule minus_not_finite_right)
  qed
qed

text \<open>
  Before the sale of the whole supply the market capitalisation of the object is 80; after
  it the price and the market capitalisation are NaN, a buy of 100 and a sale of 0 are
  quoted in NaN, and a sale of 1 raises the insufficient-balance error.
\<close>

theorem sell_all_then_division_by_zero_witness:
  "getMarketCap ratio_one_state = Fin 80
   \<and> currentSupply (snd (executeSell ratio_one_state (Fin 800000000))) = Fin 0
   \<and> reserveRatio (snd (executeSell ratio_one_state (Fin 800000000))) = Fin 1
   \<and> price_divisor (snd (executeSell ratio_one_state (Fin 800000000))) = Fin 0
   \<and> getCurrentPrice (snd (executeSell ratio_one_state (Fin 800000000))) \<in> {NaN, PInf, NInf}
   \<and> getMarketCap (snd (executeSell ratio_one_state (Fin 800000000))) = NaN
   \<and> executeSell (snd (executeSell ratio_one_state (Fin 800000000))) (Fin 1)
       = (Inl InsufficientBalance, snd (executeSell ratio_one_state (Fin 800000000)))
   \<and> (\<exists>q. fst (calculateBuyTokens (snd (executeSell ratio_one_state (Fin 800000000))) (Fin 100))
            = Inr q \<and> buy_newPrice q \<in> {NaN, PInf, NInf})
   \<and> (\<exists>q. fst (calculateSellTokens (snd (executeSell ratio_one_state (Fin 800000000))) (Fin 0))
            = Inr q \<and> baseReceived q \<in> {NaN, PInf, NInf})"
proof -
  let ?z = "ratio_one_state\<lparr>currentSupply := Fin 0, poolBalance := Fin 0\<rparr>"
  have z: "snd (executeSell ratio_one_state (Fin 800000000)) = ?z"
    by (simp only: ratio_one_sell_all snd_conv)
  have h: "currentSupply ?z = Fin 0 \<and> reserveRatio ?z = Fin 1"
    by (simp add: ratio_one_state_eq)
  have one: "(0::rat) < 1" and gt: "bn_gt (Fin 1) (Fin 0)"
    by simp_all
  note t = sell_all_then_division_by_zero [of ?z 1]
  from t h have d: "price_divisor ?z = Fin 0"
    and p: "getCurrentPrice ?z \<in> {NaN, PInf, NInf}"
    and m: "getMarketCap ?z = NaN"
    by blast+
  from t h gt have s: "executeSell ?z (Fin 1) = (Inl InsufficientBalance, ?z)"
    by blast
  from t h zero_supply_buy_quote
  have b: "buy_newPrice \<lparr>tokensReceived = NaN, buy_fee = Fin 1, buy_newPrice = NaN\<rparr>
      \<in> {NaN, PInf, NInf}"
    by blast
  from t h one zero_supply_sell_quote
  have q: "baseReceived \<lparr>baseReceived = NaN, sell_fee = NaN, sell_newPrice = NaN\<rparr>
      \<in> {NaN, PInf, NInf}"
    by blast
  have b': "\<exists>q. fst (calculateBuyTokens ?z (Fin 100)) = Inr q \<and> buy_newPrice q \<in> {NaN, PInf, NInf}"
    using b by (simp only: zero_supply_buy_quote fst_conv) blast
  have q': "\<exists>q. fst (calculateSellTokens ?z (Fin 0)) = Inr q \<and> baseReceived q \<in> {NaN, PInf, NInf}"
    using q by (simp only: zero_supply_sell_quote fst_conv) blast
  have c: "getMarketCap ratio_one_state = Fin 80"
    using ratio_one_market_cap by simp
  show ?thesis
    unfolding z using c h d p m s b' q' by blast
qed

section \<open>Burns at the milestones\<close>

text \<open>
  C1. The claim is that each milestone fires at most once in the life of an object. The
  source keeps no record of a milestone having fired, and \<^verbatim>\<open>checkMilestones\<close> burns on
  every call that finds the market capitalisation at or above a threshold. On the object
  constructed with \<^verbatim>\<open>{initialPrice: 1}\<close>, a buy of 1600000 raises the pool balance to
  161584000 and both burns reduce it to 138154320 (times 0.9, times 0.95); the next buy, of
  1381543.2, raises it to 139522047.768, and both burns are applied again, leaving
  119291350.84164.
\<close>

theorem burns_fire_on_every_buy:
  "poolBalance (snd (executeBuy milestone_state (Fin 1600000)))
     = Fin (161584000 * (9 / 10) * (19 / 20))
   \<and> poolBalance (snd (executeBuy (snd (executeBuy milestone_state (Fin 1600000)))
         (Fin (6907716 / 5))))
     = Fin ((138154320 + (6907716 / 5 - 1726929 / 125)) * (9 / 10) * (19 / 20))"
  unfolding first_buy_state second_buy_state by simp


section \<open>Tokens of a buy quote\<close>





section \<open>Buying and selling back\<close>




end
